theory Spec2Isabelle
  imports Complex_Main "HOL-Library.Char_ord" "HOL-Library.List_Lexorder" "HOL-Library.Multiset"
begin

section \<open>Camera poses of a reconstruction as stamped poses: \<open>extract_poses.py\<close>\<close>

text \<open>
  The script reads the frame records of a reconstruction, orders them by their path,
  derives a time stamp from the frame number in the path and the frame rate of the video,
  re-expresses each camera-to-world matrix in the axis convention of the target and writes
  the list of stamped poses.

  Conventions of the embedding.
  \<^item> Python floats are idealised as real numbers: rounding, infinities and NaN are not
    modelled. Python integers are unbounded, like \<open>int\<close>; the limits of the interpreter
    on them (the longest digit string that \<open>int\<close> accepts, the largest integer that
    converts to a float) are not modelled.
  \<^item> A Python string is a list of characters with code points below 256; on these
    \<open>\d\<close> of the \<open>re\<close> module matches the ten ASCII digits only, and the comparison of
    strings is the lexicographic order on code points.
  \<^item> A raised exception is a value \<open>Inl e\<close>; \<open>sys.exit(n)\<close> raises \<open>SystemExit n\<close>,
    which no handler of the script catches.
  \<^item> A frame record is a dictionary in which each of the two keys may be absent; a
    present \<open>file_path\<close> is a string and a present \<open>transform_matrix\<close> is a 4x4 array of
    numbers. Other shapes of the descriptor are outside the model.
\<close>

subsection \<open>Exceptions\<close>

datatype exn =
    ValueError string
  | KeyError string
  | ZeroDivisionError
  | SystemExit nat

subsection \<open>Matrices\<close>

type_synonym vec3 = "real \<times> real \<times> real"
type_synonym vec4 = "real \<times> real \<times> real \<times> real"
type_synonym mat3 = "vec3 \<times> vec3 \<times> vec3"
type_synonym mat4 = "vec4 \<times> vec4 \<times> vec4 \<times> vec4"

fun dot4 :: "vec4 \<Rightarrow> vec4 \<Rightarrow> real" where
  "dot4 (a0, a1, a2, a3) (b0, b1, b2, b3) = a0 * b0 + a1 * b1 + a2 * b2 + a3 * b3"

fun transpose4 :: "mat4 \<Rightarrow> mat4" where
  "transpose4 ((a00, a01, a02, a03), (a10, a11, a12, a13),
               (a20, a21, a22, a23), (a30, a31, a32, a33)) =
     ((a00, a10, a20, a30), (a01, a11, a21, a31),
      (a02, a12, a22, a32), (a03, a13, a23, a33))"

text \<open>One row of a product: the row against each column of the right factor.\<close>

fun row_by_columns :: "vec4 \<Rightarrow> mat4 \<Rightarrow> vec4" where
  "row_by_columns r (c0, c1, c2, c3) = (dot4 r c0, dot4 r c1, dot4 r c2, dot4 r c3)"

text \<open>The operator \<open>@\<close> of NumPy on two 4x4 arrays.\<close>

fun matmul :: "mat4 \<Rightarrow> mat4 \<Rightarrow> mat4" where
  "matmul (r0, r1, r2, r3) B =
     (row_by_columns r0 (transpose4 B), row_by_columns r1 (transpose4 B),
      row_by_columns r2 (transpose4 B), row_by_columns r3 (transpose4 B))"

definition identity4 :: mat4 where
  "identity4 = ((1, 0, 0, 0), (0, 1, 0, 0), (0, 0, 1, 0), (0, 0, 0, 1))"

text \<open>The constant of \<open>main\<close> that takes OpenCV coordinates to ROS coordinates.\<close>

definition CV_TO_ROS_FRAME :: mat4 where
  "CV_TO_ROS_FRAME =
     (( 0,  0, 1, 0),
      (-1,  0, 0, 0),
      ( 0, -1, 0, 0),
      ( 0,  0, 0, 1))"

text \<open>The slices \<open>m[:3, 3]\<close> and \<open>m[:3, :3]\<close>.\<close>

fun translation_column :: "mat4 \<Rightarrow> vec3" where
  "translation_column ((a00, a01, a02, a03), (a10, a11, a12, a13),
                       (a20, a21, a22, a23), r3) = (a03, a13, a23)"

fun rotation_block :: "mat4 \<Rightarrow> mat3" where
  "rotation_block ((a00, a01, a02, a03), (a10, a11, a12, a13),
                   (a20, a21, a22, a23), r3) =
     ((a00, a01, a02), (a10, a11, a12), (a20, a21, a22))"

text \<open>A 3x3 matrix applied to a vector, to read off the images of the basis vectors.\<close>

fun apply3 :: "mat3 \<Rightarrow> vec3 \<Rightarrow> vec3" where
  "apply3 ((a00, a01, a02), (a10, a11, a12), (a20, a21, a22)) (x, y, z) =
     (a00 * x + a01 * y + a02 * z, a10 * x + a11 * y + a12 * z, a20 * x + a21 * y + a22 * z)"

subsection \<open>Quaternions\<close>

text \<open>A quaternion in the order of SciPy: \<open>(x, y, z, w)\<close>, the scalar last.\<close>

type_synonym quat = "real \<times> real \<times> real \<times> real"

fun quat_norm :: "quat \<Rightarrow> real" where
  "quat_norm (x, y, z, w) = sqrt (x * x + y * y + z * z + w * w)"

text \<open>The rotation matrix of a unit quaternion.\<close>

fun quat_to_matrix :: "quat \<Rightarrow> mat3" where
  "quat_to_matrix (x, y, z, w) =
     ((1 - 2 * (y * y + z * z), 2 * (x * y - z * w), 2 * (x * z + y * w)),
      (2 * (x * y + z * w), 1 - 2 * (x * x + z * z), 2 * (y * z - x * w)),
      (2 * (x * z - y * w), 2 * (y * z + x * w), 1 - 2 * (x * x + y * y)))"

text \<open>
  \<open>R.from_matrix(m).as_quat()\<close> belongs to SciPy, not to the script, so the embedding
  of the script takes it as a parameter: a conversion returns a quaternion or raises
  \<open>ValueError\<close> with a message.
\<close>

type_synonym converter = "mat3 \<Rightarrow> string + quat"

text \<open>
  What the script relies on: on the matrix \<open>m\<close> the conversion returns a unit quaternion
  whose rotation is \<open>m\<close>.
\<close>

definition converts :: "converter \<Rightarrow> mat3 \<Rightarrow> bool" where
  "converts conv m \<longleftrightarrow>
     (case conv m of Inl msg \<Rightarrow> False
      | Inr q \<Rightarrow> quat_norm q = 1 \<and> quat_to_matrix q = m)"

text \<open>
  The conversion as SciPy computes it on a rotation matrix, over the reals: the largest of
  the three diagonal entries and the trace (the first one on a tie, as \<open>argmax\<close> does)
  selects one of four formulas, and the result is divided by its norm. It is used for the
  examples; the properties of the script below hold for every conversion.
\<close>

fun from_matrix_as_quat :: converter where
  "from_matrix_as_quat ((m00, m01, m02), (m10, m11, m12), (m20, m21, m22)) =
     (let t = m00 + m11 + m22;
          q = (if m11 \<le> m00 \<and> m22 \<le> m00 \<and> t \<le> m00
                 then (1 - t + 2 * m00, m10 + m01, m20 + m02, m21 - m12)
               else if m22 \<le> m11 \<and> t \<le> m11
                 then (m01 + m10, 1 - t + 2 * m11, m21 + m12, m02 - m20)
               else if t \<le> m22
                 then (m02 + m20, m12 + m21, 1 - t + 2 * m22, m10 - m01)
               else (m21 - m12, m02 - m20, m10 - m01, 1 + t))
      in case q of (x, y, z, w) \<Rightarrow>
           Inr (x / quat_norm q, y / quat_norm q, z / quat_norm q, w / quat_norm q))"

subsection \<open>The frame rate\<close>

text \<open>
  What \<open>get_video_fps\<close> meets outside the program: the video file is absent; the call of
  \<open>ffprobe\<close> fails or its output is not two integers separated by a slash; or the output
  parses to a numerator and a denominator.
\<close>

datatype probe = No_video_file | Probe_failed | Ratio int int

datatype message =
    Error_video_not_found
  | Error_getting_fps
  | Error_transforms_not_found
  | Skipping_frame exn
  | Warning_no_poses

text \<open>The operator \<open>/\<close> on numbers.\<close>

definition truediv :: "real \<Rightarrow> real \<Rightarrow> exn + real" where
  "truediv a b = (if b = 0 then Inl ZeroDivisionError else Inr (a / b))"

text \<open>The lines written to the standard error stream, and the value or the exception.\<close>

definition get_video_fps :: "probe \<Rightarrow> message list \<times> (exn + real)" where
  "get_video_fps video =
     (case video of
        No_video_file \<Rightarrow> ([Error_video_not_found], Inl (SystemExit 1))
      | Probe_failed \<Rightarrow> ([Error_getting_fps], Inl (SystemExit 1))
      | Ratio num den \<Rightarrow>
          ([], if den \<noteq> 0 then truediv (of_int num) (of_int den) else Inr 0))"

subsection \<open>The frame number of a path\<close>

definition is_digit :: "char \<Rightarrow> bool" where
  "is_digit c \<longleftrightarrow> c \<in> set ''0123456789''"

text \<open>\<open>int\<close> of a string of decimal digits.\<close>

definition int_of_digits :: "string \<Rightarrow> int" where
  "int_of_digits ds = foldl (\<lambda>n c. 10 * n + (int (of_char c) - 48)) 0 ds"

text \<open>
  The pattern \<open>frame_(\d+)\<close> tried at the start of a string: the digits of the group, the
  longest run there is, or nothing when the pattern does not match here.
\<close>

definition frame_digits_here :: "string \<Rightarrow> string" where
  "frame_digits_here s =
     (if take 6 s = ''frame_'' then takeWhile is_digit (drop 6 s) else [])"

text \<open>\<open>re.search\<close>: the leftmost position where the pattern matches.\<close>

fun re_search :: "string \<Rightarrow> string option" where
  "re_search [] = None"
| "re_search (c # cs) =
     (if frame_digits_here (c # cs) = [] then re_search cs
      else Some (frame_digits_here (c # cs)))"

definition extract_frame_number :: "string \<Rightarrow> exn + int" where
  "extract_frame_number path =
     (case re_search path of
        None \<Rightarrow> Inl (ValueError (''Could not extract frame number from '' @ path))
      | Some digits \<Rightarrow> Inr (int_of_digits digits))"

subsection \<open>Time stamps\<close>

text \<open>\<open>divmod\<close> on numbers: the floor of the quotient, and a remainder with the sign of
  the divisor.\<close>

definition py_divmod :: "real \<Rightarrow> real \<Rightarrow> exn + real \<times> real" where
  "py_divmod a b =
     (if b = 0 then Inl ZeroDivisionError
      else Inr (of_int \<lfloor>a / b\<rfloor>, a - b * of_int \<lfloor>a / b\<rfloor>))"

text \<open>\<open>int\<close> of a number: truncation towards zero.\<close>

definition py_int :: "real \<Rightarrow> int" where
  "py_int x = (if 0 \<le> x then \<lfloor>x\<rfloor> else \<lceil>x\<rceil>)"

text \<open>Lines 93 to 96 of the loop body, with the \<open>int(ts_sec)\<close> of line 107: the pair
  \<open>(sec, nanosec)\<close>.\<close>

definition time_stamp :: "real \<Rightarrow> int \<Rightarrow> exn + int \<times> int" where
  "time_stamp fps frame_number =
     (case (if 0 < fps then truediv (of_int (frame_number - 1)) fps else Inr 0) of
        Inl e \<Rightarrow> Inl e
      | Inr timestamp_sec_float \<Rightarrow>
          (case py_divmod timestamp_sec_float 1 of
             Inl e \<Rightarrow> Inl e
           | Inr (ts_sec, ts_nanosec_float) \<Rightarrow>
               Inr (py_int ts_sec, py_int (ts_nanosec_float * 1000000000))))"

subsection \<open>Frames and poses\<close>

record frame =
  file_path :: "string option"
  transform_matrix :: "mat4 option"

record pose_stamped =
  stamp_sec :: int
  stamp_nanosec :: int
  frame_id :: string
  position :: vec3
  orientation :: quat

text \<open>The body of the \<open>try\<close> block for one frame: the pose, or the exception raised.\<close>

definition process_frame :: "converter \<Rightarrow> string \<Rightarrow> real \<Rightarrow> frame \<Rightarrow> exn + pose_stamped" where
  "process_frame conv fid fps fr =
     (case file_path fr of
        None \<Rightarrow> Inl (KeyError ''file_path'')
      | Some path \<Rightarrow>
     (case extract_frame_number path of
        Inl e \<Rightarrow> Inl e
      | Inr frame_number \<Rightarrow>
     (case time_stamp fps frame_number of
        Inl e \<Rightarrow> Inl e
      | Inr (sec, nanosec) \<Rightarrow>
     (case transform_matrix fr of
        None \<Rightarrow> Inl (KeyError ''transform_matrix'')
      | Some c2w_colmap \<Rightarrow>
     (let c2w_ros = matmul CV_TO_ROS_FRAME c2w_colmap in
      case conv (rotation_block c2w_ros) of
        Inl msg \<Rightarrow> Inl (ValueError msg)
      | Inr quat \<Rightarrow>
          Inr \<lparr>stamp_sec = sec, stamp_nanosec = nanosec, frame_id = fid,
               position = translation_column c2w_ros, orientation = quat\<rparr>)))))"

subsection \<open>The run\<close>

record transforms =
  frames :: "frame list option"

text \<open>\<open>transforms_data.get("frames", [])\<close>.\<close>

definition get_frames :: "transforms \<Rightarrow> frame list" where
  "get_frames transforms_data =
     (case frames transforms_data of None \<Rightarrow> [] | Some fs \<Rightarrow> fs)"

record run_state =
  all_poses :: "pose_stamped list"
  stderr :: "message list"
  output_file :: "pose_stamped list option"

text \<open>
  \<open>sorted(..., key=lambda f: f['file_path'])\<close>: the key of every record is computed
  first, so a record without the key raises \<open>KeyError\<close> before anything is ordered; the
  sort is stable.
\<close>

definition sorted_by_file_path :: "frame list \<Rightarrow> exn + frame list" where
  "sorted_by_file_path fs =
     (case those (map (\<lambda>f. map_option (\<lambda>k. (k, f)) (file_path f)) fs) of
        None \<Rightarrow> Inl (KeyError ''file_path'')
      | Some keyed \<Rightarrow> Inr (map snd (sort_key fst keyed)))"

text \<open>
  The loop over the ordered frames. \<open>ValueError\<close> and \<open>KeyError\<close> are caught: the frame is
  reported and skipped. Any other exception ends the run.
\<close>

fun process_frames ::
  "converter \<Rightarrow> string \<Rightarrow> real \<Rightarrow> frame list \<Rightarrow> run_state \<Rightarrow> exn option \<times> run_state" where
  "process_frames conv fid fps [] st = (None, st)"
| "process_frames conv fid fps (fr # rest) st =
     (case process_frame conv fid fps fr of
        Inr pose \<Rightarrow>
          process_frames conv fid fps rest (st\<lparr>all_poses := all_poses st @ [pose]\<rparr>)
      | Inl (ValueError m) \<Rightarrow>
          process_frames conv fid fps rest
            (st\<lparr>stderr := stderr st @ [Skipping_frame (ValueError m)]\<rparr>)
      | Inl (KeyError k) \<Rightarrow>
          process_frames conv fid fps rest
            (st\<lparr>stderr := stderr st @ [Skipping_frame (KeyError k)]\<rparr>)
      | Inl e \<Rightarrow> (Some e, st))"

text \<open>
  \<open>main\<close>. The arguments are the conversion of the library, the \<open>--frame_id\<close> option, the
  content of \<open>transforms.json\<close> (\<open>None\<close> when the file is absent) and what the probe of the
  video meets. The result is the exception that ended the run, if any, and the final state.
\<close>

definition main ::
  "converter \<Rightarrow> string \<Rightarrow> transforms option \<Rightarrow> probe \<Rightarrow> exn option \<times> run_state" where
  "main conv fid transforms_file video =
     (let st0 = \<lparr>all_poses = [], stderr = [], output_file = None\<rparr> in
      case transforms_file of
        None \<Rightarrow> (Some (SystemExit 1), st0\<lparr>stderr := [Error_transforms_not_found]\<rparr>)
      | Some transforms_data \<Rightarrow>
     (case get_video_fps video of
        (msgs, Inl e) \<Rightarrow> (Some e, st0\<lparr>stderr := msgs\<rparr>)
      | (msgs, Inr fps) \<Rightarrow>
     (case sorted_by_file_path
             (get_frames transforms_data) of
        Inl e \<Rightarrow> (Some e, st0)
      | Inr sorted_frames \<Rightarrow>
     (case process_frames conv fid fps sorted_frames st0 of
        (Some e, st) \<Rightarrow> (Some e, st)
      | (None, st) \<Rightarrow>
          if all_poses st = []
          then (Some (SystemExit 0), st\<lparr>stderr := stderr st @ [Warning_no_poses]\<rparr>)
          else (None, st\<lparr>output_file := Some (all_poses st)\<rparr>)))))"

text \<open>The exit status of the process: that of \<open>sys.exit\<close>, 1 for an uncaught exception,
  0 when \<open>main\<close> returns.\<close>

fun exit_status :: "exn option \<Rightarrow> nat" where
  "exit_status None = 0"
| "exit_status (Some (SystemExit n)) = n"
| "exit_status (Some e) = 1"

subsection \<open>Notions used to state the properties\<close>

text \<open>A frame survives when its \<open>try\<close> block reaches the \<open>append\<close>.\<close>

definition survives :: "converter \<Rightarrow> string \<Rightarrow> real \<Rightarrow> frame \<Rightarrow> bool" where
  "survives conv fid fps fr \<longleftrightarrow>
     (case process_frame conv fid fps fr of Inr p \<Rightarrow> True | Inl e \<Rightarrow> False)"

text \<open>The poses that a list of frames contributes, and the diagnostics, in order.\<close>

definition emitted :: "converter \<Rightarrow> string \<Rightarrow> real \<Rightarrow> frame list \<Rightarrow> pose_stamped list" where
  "emitted conv fid fps fs =
     concat (map (\<lambda>fr. case process_frame conv fid fps fr of
                          Inr p \<Rightarrow> [p] | Inl e \<Rightarrow> []) fs)"

definition reported :: "converter \<Rightarrow> string \<Rightarrow> real \<Rightarrow> frame list \<Rightarrow> message list" where
  "reported conv fid fps fs =
     concat (map (\<lambda>fr. case process_frame conv fid fps fr of
                          Inr p \<Rightarrow> [] | Inl e \<Rightarrow> [Skipping_frame e]) fs)"

text \<open>Two frames in the order of their paths.\<close>

definition path_le :: "frame \<Rightarrow> frame \<Rightarrow> bool" where
  "path_le a b \<longleftrightarrow>
     (case (file_path a, file_path b) of
        (Some pa, Some pb) \<Rightarrow> pa \<le> pb
      | _ \<Rightarrow> False)"


text \<open>A frame with the identity as its matrix, for the examples.\<close>

definition identity_frame :: "string \<Rightarrow> frame" where
  "identity_frame path = \<lparr>file_path = Some path, transform_matrix = Some identity4\<rparr>"

section \<open>Facts about the parts\<close>

lemma py_int_of_int: "py_int (of_int k) = k"
  by (simp add: py_int_def)

lemma py_int_nonneg: "0 \<le> x \<Longrightarrow> py_int x = \<lfloor>x\<rfloor>"
  by (simp add: py_int_def)

lemma time_stamp_positive_rate:
  assumes "0 < fps"
  shows "time_stamp fps n =
    Inr (\<lfloor>of_int (n - 1) / fps\<rfloor>, \<lfloor>frac (of_int (n - 1) / fps) * 1000000000\<rfloor>)"
proof -
  have "0 \<le> frac (of_int (n - 1) / fps) * 1000000000"
    by (simp add: frac_ge_0)
  then show ?thesis
    using assms
    by (simp add: time_stamp_def truediv_def py_divmod_def py_int_of_int py_int_nonneg frac_def)
qed

lemma time_stamp_no_rate:
  assumes "\<not> 0 < fps"
  shows "time_stamp fps n = Inr (0, 0)"
  using assms by (simp add: time_stamp_def py_divmod_def py_int_def)

lemma time_stamp_total: "\<exists>s ns. time_stamp fps n = Inr (s, ns)"
  by (cases "0 < fps") (simp_all add: time_stamp_positive_rate time_stamp_no_rate)

text \<open>What a pose says about the frame it comes from.\<close>

lemma process_frame_Inr:
  assumes "process_frame conv fid fps fr = Inr p"
  shows "\<exists>path n m q. file_path fr = Some path \<and> extract_frame_number path = Inr n
          \<and> time_stamp fps n = Inr (stamp_sec p, stamp_nanosec p)
          \<and> transform_matrix fr = Some m
          \<and> conv (rotation_block (matmul CV_TO_ROS_FRAME m)) = Inr q
          \<and> frame_id p = fid
          \<and> position p = translation_column (matmul CV_TO_ROS_FRAME m)
          \<and> orientation p = q"
  using assms
  by (auto simp: process_frame_def Let_def split: option.splits sum.splits prod.splits)

text \<open>The body raises nothing but the two exceptions that the handler catches.\<close>

lemma process_frame_Inl:
  assumes "process_frame conv fid fps fr = Inl e"
  shows "(\<exists>m. e = ValueError m) \<or> (\<exists>k. e = KeyError k)"
proof -
  have ts: "\<And>n e. time_stamp fps n \<noteq> Inl e"
    using time_stamp_total by (metis sum.distinct(1))
  show ?thesis
    using assms ts
    by (auto simp: process_frame_def extract_frame_number_def Let_def
             split: option.splits sum.splits prod.splits)
qed

text \<open>The loop never ends the run: it appends the poses and the diagnostics.\<close>

lemma process_frames_run:
  "process_frames conv fid fps fs st =
     (None, st\<lparr>all_poses := all_poses st @ emitted conv fid fps fs,
               stderr := stderr st @ reported conv fid fps fs\<rparr>)"
proof (induction fs arbitrary: st)
  case Nil
  show ?case by (simp add: emitted_def reported_def)
next
  case (Cons fr rest)
  show ?case
  proof (cases "process_frame conv fid fps fr")
    case (Inr p)
    then show ?thesis
      by (simp add: Cons.IH emitted_def reported_def)
  next
    case (Inl e)
    from process_frame_Inl [OF Inl] show ?thesis
    proof
      assume "\<exists>m. e = ValueError m"
      then show ?thesis using Inl by (auto simp: Cons.IH emitted_def reported_def)
    next
      assume "\<exists>k. e = KeyError k"
      then show ?thesis using Inl by (auto simp: Cons.IH emitted_def reported_def)
    qed
  qed
qed

text \<open>The keys of the sort.\<close>

lemma those_keyed:
  assumes "those (map (\<lambda>f. map_option (\<lambda>k. (k, f)) (file_path f)) fs) = Some keyed"
  shows "map snd keyed = fs \<and> map file_path fs = map (Some \<circ> fst) keyed"
  using assms
  by (induction fs arbitrary: keyed) (auto split: option.splits)

lemma those_keyed_None:
  "those (map (\<lambda>f. map_option (\<lambda>k. (k, f)) (file_path f)) fs) = None
     \<longleftrightarrow> (\<exists>fr \<in> set fs. file_path fr = None)"
  by (induction fs) (auto split: option.splits)


lemma sorted_by_file_path_Inl:
  assumes "sorted_by_file_path fs = Inl e"
  shows "e = KeyError ''file_path'' \<and> (\<exists>fr \<in> set fs. file_path fr = None)"
  using assms those_keyed_None [of fs]
  by (auto simp: sorted_by_file_path_def split: option.splits)

lemma sorted_by_file_path_Inr:
  assumes "sorted_by_file_path fs = Inr sfs"
  shows "mset sfs = mset fs
         \<and> (\<exists>paths. map file_path sfs = map Some paths \<and> sorted paths)"
proof -
  from assms obtain keyed where
    k: "those (map (\<lambda>f. map_option (\<lambda>k. (k, f)) (file_path f)) fs) = Some keyed"
    and s: "sfs = map snd (sort_key fst keyed)"
    by (auto simp: sorted_by_file_path_def split: option.splits)
  from those_keyed [OF k] have snd: "map snd keyed = fs"
    and fp: "map file_path fs = map (Some \<circ> fst) keyed" by simp_all
  have "mset sfs = mset (map snd keyed)"
    unfolding s by (simp add: mset_map)
  then have m: "mset sfs = mset fs" using snd by simp
  have each: "\<forall>kf \<in> set keyed. file_path (snd kf) = Some (fst kf)"
  proof
    fix kf assume "kf \<in> set keyed"
    then obtain i where i: "i < length keyed" "keyed ! i = kf"
      by (auto simp: in_set_conv_nth)
    have "map file_path (map snd keyed) ! i = map (Some \<circ> fst) keyed ! i"
      using snd fp by simp
    then show "file_path (snd kf) = Some (fst kf)" using i by simp
  qed
  have "map file_path sfs = map Some (map fst (sort_key fst keyed))"
    unfolding s using each by (auto simp: comp_def)
  moreover have "sorted (map fst (sort_key fst keyed))"
    by (rule sorted_sort_key)
  ultimately show ?thesis using m by blast
qed


text \<open>A run that reaches the loop.\<close>

lemma main_run:
  assumes "get_video_fps video = (msgs, Inr fps)"
    and "sorted_by_file_path (get_frames tr) = Inr sfs"
  shows "main conv fid (Some tr) video =
     (if emitted conv fid fps sfs = []
      then (Some (SystemExit 0),
            \<lparr>all_poses = [], stderr = reported conv fid fps sfs @ [Warning_no_poses],
             output_file = None\<rparr>)
      else (None,
            \<lparr>all_poses = emitted conv fid fps sfs, stderr = reported conv fid fps sfs,
             output_file = Some (emitted conv fid fps sfs)\<rparr>))"
  using assms by (simp add: main_def process_frames_run)

section \<open>The axis constant\<close>

text \<open>
  C8. The constant is orthogonal (its product with its transpose is the identity) and has
  a zero translation column; multiplying the identity by it on the left gives the constant
  back; its rotation block sends the basis vectors of the source (right, down, forward)
  to minus the second, minus the third and plus the first basis vector of the target
  (forward, left, up), which are again right, down and forward.
\<close>

theorem CV_TO_ROS_FRAME_orthogonal_permutation:
  "matmul CV_TO_ROS_FRAME (transpose4 CV_TO_ROS_FRAME) = identity4
   \<and> matmul (transpose4 CV_TO_ROS_FRAME) CV_TO_ROS_FRAME = identity4
   \<and> translation_column CV_TO_ROS_FRAME = (0, 0, 0)
   \<and> matmul CV_TO_ROS_FRAME identity4 = CV_TO_ROS_FRAME
   \<and> apply3 (rotation_block CV_TO_ROS_FRAME) (1, 0, 0) = (0, -1, 0)
   \<and> apply3 (rotation_block CV_TO_ROS_FRAME) (0, 1, 0) = (0, 0, -1)
   \<and> apply3 (rotation_block CV_TO_ROS_FRAME) (0, 0, 1) = (1, 0, 0)"
  by (simp add: CV_TO_ROS_FRAME_def identity4_def)

section \<open>Evaluation of the examples\<close>

lemma ceiling_minus_one: "\<lceil>- 1 :: real\<rceil> = - 1"
  using ceiling_minus [of "1 :: real"] by simp

lemmas run_defs =
  identity_frame_def process_frame_def extract_frame_number_def frame_digits_here_def
  is_digit_def int_of_digits_def time_stamp_def truediv_def py_divmod_def py_int_def
  CV_TO_ROS_FRAME_def identity4_def ceiling_minus_one

lemmas main_defs =
  main_def get_video_fps_def sorted_by_file_path_def get_frames_def

section \<open>Frame numbers are not negative\<close>





section \<open>Time stamps\<close>








section \<open>No division by zero\<close>

lemma get_video_fps_no_zero_division:
  "snd (get_video_fps video) \<noteq> Inl ZeroDivisionError"
  by (cases video) (simp_all add: get_video_fps_def truediv_def)

lemma main_no_zero_division:
  "fst (main conv fid tf video) \<noteq> Some ZeroDivisionError"
proof (cases tf)
  case None
  then show ?thesis by (simp add: main_def)
next
  case (Some tr)
  obtain msgs res where g: "get_video_fps video = (msgs, res)" by (cases "get_video_fps video")
  show ?thesis
  proof (cases res)
    case (Inl e)
    with g get_video_fps_no_zero_division [of video] Some show ?thesis
      by (simp add: main_def)
  next
    case (Inr fps)
    show ?thesis
    proof (cases "sorted_by_file_path (get_frames tr)")
      case (Inl e)
      from sorted_by_file_path_Inl [OF Inl] have "e = KeyError ''file_path''" by simp
      with Inl g Inr Some show ?thesis by (simp add: main_def)
    next
      case sfs: (Inr sfs)
      from main_run [OF g [unfolded Inr] sfs, of conv fid] Some show ?thesis by simp
    qed
  qed
qed

lemma emitted_member:
  "p \<in> set (emitted conv fid fps fs) \<longleftrightarrow> (\<exists>fr \<in> set fs. process_frame conv fid fps fr = Inr p)"
proof
  assume "p \<in> set (emitted conv fid fps fs)"
  then show "\<exists>fr \<in> set fs. process_frame conv fid fps fr = Inr p"
    by (auto simp: emitted_def split: sum.splits)
next
  assume "\<exists>fr \<in> set fs. process_frame conv fid fps fr = Inr p"
  then obtain fr where "fr \<in> set fs" and "process_frame conv fid fps fr = Inr p" by blast
  then show "p \<in> set (emitted conv fid fps fs)"
    by (auto simp: emitted_def intro!: bexI [of _ fr])
qed

lemma main_poses:
  assumes "p \<in> set (all_poses (snd (main conv fid tf video)))"
  shows "\<exists>msgs fps fr. get_video_fps video = (msgs, Inr fps)
           \<and> process_frame conv fid fps fr = Inr p"
proof (cases tf)
  case None
  with assms show ?thesis by (simp add: main_def)
next
  case (Some tr)
  obtain msgs res where g: "get_video_fps video = (msgs, res)" by (cases "get_video_fps video")
  show ?thesis
  proof (cases res)
    case (Inl e)
    with g Some assms show ?thesis by (simp add: main_def)
  next
    case (Inr fps)
    show ?thesis
    proof (cases "sorted_by_file_path (get_frames tr)")
      case (Inl e)
      with g Inr Some assms show ?thesis by (simp add: main_def)
    next
      case sfs: (Inr sfs)
      from main_run [OF g [unfolded Inr] sfs, of conv fid] Some assms
      have "p \<in> set (emitted conv fid fps sfs)" by (simp split: if_splits)
      then show ?thesis using g Inr emitted_member by blast
    qed
  qed
qed

text \<open>
  C5. A zero denominator makes \<open>get_video_fps\<close> return 0. When the frame rate is 0, every
  pose of the run has the stamp \<open>(0, 0)\<close>. No part of the program divides by zero,
  whatever the input: neither \<open>get_video_fps\<close>, nor the time stamp, nor the body of the
  loop, nor \<open>main\<close> raises \<open>ZeroDivisionError\<close>.
\<close>

theorem zero_rate_stamps:
  "snd (get_video_fps (Ratio num 0)) = Inr 0
   \<and> (snd (get_video_fps video) = Inr 0 \<longrightarrow>
        (\<forall>p \<in> set (all_poses (snd (main conv fid tf video))).
            stamp_sec p = 0 \<and> stamp_nanosec p = 0))
   \<and> snd (get_video_fps video) \<noteq> Inl ZeroDivisionError
   \<and> time_stamp fps n \<noteq> Inl ZeroDivisionError
   \<and> process_frame conv fid fps fr \<noteq> Inl ZeroDivisionError
   \<and> fst (main conv fid tf video) \<noteq> Some ZeroDivisionError"
proof -
  have a: "snd (get_video_fps (Ratio num 0)) = Inr 0"
    by (simp add: get_video_fps_def)
  have b: "stamp_sec p = 0 \<and> stamp_nanosec p = 0"
    if z: "snd (get_video_fps video) = Inr 0"
      and p: "p \<in> set (all_poses (snd (main conv fid tf video)))" for p
  proof -
    from main_poses [OF p] z obtain fr where pf: "process_frame conv fid 0 fr = Inr p"
      by auto
    from process_frame_Inr [OF pf] obtain m where "time_stamp 0 m = Inr (stamp_sec p, stamp_nanosec p)"
      by blast
    then show ?thesis using time_stamp_no_rate [of 0 m] by simp
  qed
  have c: "time_stamp fps n \<noteq> Inl ZeroDivisionError"
    using time_stamp_total [of fps n] by auto
  have d: "process_frame conv fid fps fr \<noteq> Inl ZeroDivisionError"
    using process_frame_Inl [of conv fid fps fr ZeroDivisionError] by auto
  show ?thesis
    using a b c d get_video_fps_no_zero_division main_no_zero_division by blast
qed

text \<open>Two frames with the probe output \<open>30/0\<close>: both stamps are \<open>(0, 0)\<close> and the run
  completes.\<close>

theorem zero_rate_stamps_witness:
  "snd (get_video_fps (Ratio 30 0)) = Inr 0
   \<and> map (\<lambda>p. (stamp_sec p, stamp_nanosec p))
        (all_poses (snd (main from_matrix_as_quat ''map''
           (Some \<lparr>frames = Some [identity_frame ''images/frame_0031.png'',
                                  identity_frame ''images/frame_0002.png'']\<rparr>)
           (Ratio 30 0))))
      = [(0, 0), (0, 0)]
   \<and> fst (main from_matrix_as_quat ''map''
           (Some \<lparr>frames = Some [identity_frame ''images/frame_0031.png'',
                                  identity_frame ''images/frame_0002.png'']\<rparr>)
           (Ratio 30 0)) = None"
  using zero_rate_stamps [of 30 "Ratio 30 0" from_matrix_as_quat "''map''"
      "Some \<lparr>frames = Some [identity_frame ''images/frame_0031.png'',
                                  identity_frame ''images/frame_0002.png'']\<rparr>"]
  by (simp add: main_defs run_defs)

section \<open>The pose of the identity frame\<close>

lemma rotation_block_of_identity:
  "rotation_block (matmul CV_TO_ROS_FRAME identity4) = ((0, 0, 1), (- 1, 0, 0), (0, - 1, 0))"
  by (simp add: CV_TO_ROS_FRAME_def identity4_def)

lemma translation_of_identity:
  "translation_column (matmul CV_TO_ROS_FRAME identity4) = (0, 0, 0)"
  by (simp add: CV_TO_ROS_FRAME_def identity4_def)

lemma half_or_minus_half:
  fixes x :: real
  assumes "x * x = 1 / 4"
  shows "x = 1 / 2 \<or> x = - 1 / 2"
proof -
  have "(x - 1 / 2) * (x + 1 / 2) = 0"
    using assms by (simp add: algebra_simps)
  then show ?thesis by auto
qed

text \<open>The rotation block of the constant has two quaternions, one the negative of the
  other.\<close>

lemma quaternion_of_axis_block:
  fixes x y z w :: real
  assumes rot: "quat_to_matrix (x, y, z, w) = ((0, 0, 1), (- 1, 0, 0), (0, - 1, 0))"
  shows "(x, y, z, w) = (1 / 2, - 1 / 2, 1 / 2, - 1 / 2)
         \<or> (x, y, z, w) = (- 1 / 2, 1 / 2, - 1 / 2, 1 / 2)"
proof -
  from rot have eqs:
    "1 - 2 * (y * y + z * z) = 0 \<and> 1 - 2 * (x * x + z * z) = 0
     \<and> 1 - 2 * (x * x + y * y) = 0
     \<and> 2 * (x * y - z * w) = 0 \<and> 2 * (x * y + z * w) = - 1
     \<and> 2 * (x * z + y * w) = 1 \<and> 2 * (x * z - y * w) = 0
     \<and> 2 * (y * z - x * w) = 0 \<and> 2 * (y * z + x * w) = - 1"
    unfolding quat_to_matrix.simps prod.inject by blast
  then have d0: "1 - 2 * (y * y + z * z) = 0" and d1: "1 - 2 * (x * x + z * z) = 0"
    and d2: "1 - 2 * (x * x + y * y) = 0"
    and e01: "2 * (x * y - z * w) = 0" and e10: "2 * (x * y + z * w) = - 1"
    and e02: "2 * (x * z + y * w) = 1" and e20: "2 * (x * z - y * w) = 0"
    and e12: "2 * (y * z - x * w) = 0" and e21: "2 * (y * z + x * w) = - 1"
    by blast+
  have xx: "x * x = 1 / 4" using d0 d1 d2 by argo
  have xy: "x * y = - 1 / 4" using e01 e10 by argo
  have xz: "x * z = 1 / 4" using e02 e20 by argo
  have xw: "x * w = - 1 / 4" using e12 e21 by argo
  from half_or_minus_half [OF xx] show ?thesis
  proof
    assume x: "x = 1 / 2"
    from xy xz xw show ?thesis unfolding x by simp
  next
    assume x: "x = - 1 / 2"
    from xy xz xw show ?thesis unfolding x by simp
  qed
qed

text \<open>
  C1, as the code has it. For the frame \<open>images/frame_0001.png\<close> with the identity as its
  matrix, at 30 frames per second, the stamp is \<open>(0, 0)\<close> and the position is
  \<open>(0, 0, 0)\<close>. The orientation is not the identity quaternion \<open>(0, 0, 0, 1)\<close> of the
  claim: the matrix is multiplied by the axis constant first, so the orientation is a
  quaternion of the rotation block of the constant, that is \<open>(1/2, -1/2, 1/2, -1/2)\<close> or
  its negative, whichever conversion of a rotation matrix to a unit quaternion is used.
\<close>

theorem identity_frame_pose:
  assumes "converts conv (rotation_block (matmul CV_TO_ROS_FRAME identity4))"
  shows "process_frame conv fid 30 (identity_frame ''images/frame_0001.png'') =
           Inr \<lparr>stamp_sec = 0, stamp_nanosec = 0, frame_id = fid, position = (0, 0, 0),
                orientation = (1 / 2, - 1 / 2, 1 / 2, - 1 / 2)\<rparr>
       \<or> process_frame conv fid 30 (identity_frame ''images/frame_0001.png'') =
           Inr \<lparr>stamp_sec = 0, stamp_nanosec = 0, frame_id = fid, position = (0, 0, 0),
                orientation = (- 1 / 2, 1 / 2, - 1 / 2, 1 / 2)\<rparr>"
proof -
  let ?R = "((0, 0, 1), (- 1, 0, 0), (0, - 1, 0)) :: mat3"
  from assms obtain q where c: "conv ?R = Inr q" and u: "quat_norm q = 1"
    and r: "quat_to_matrix q = ?R"
    unfolding rotation_block_of_identity converts_def by (auto split: sum.splits)
  obtain x y z w where q: "q = (x, y, z, w)" by (cases q) auto
  have ts: "time_stamp 30 1 = Inr (0, 0)"
    by (simp add: time_stamp_def truediv_def py_divmod_def py_int_def)
  have n: "extract_frame_number ''images/frame_0001.png'' = Inr 1"
    by (simp add: extract_frame_number_def frame_digits_here_def is_digit_def int_of_digits_def)
  have pf: "process_frame conv fid 30 (identity_frame ''images/frame_0001.png'') =
      Inr \<lparr>stamp_sec = 0, stamp_nanosec = 0, frame_id = fid, position = (0, 0, 0),
           orientation = q\<rparr>"
    by (simp add: process_frame_def identity_frame_def n ts rotation_block_of_identity
        translation_of_identity c)
  from quaternion_of_axis_block [OF r [unfolded q]] q
  have "q = (1 / 2, - 1 / 2, 1 / 2, - 1 / 2) \<or> q = (- 1 / 2, 1 / 2, - 1 / 2, 1 / 2)"
    by simp
  then show ?thesis using pf by auto
qed

text \<open>With the conversion of SciPy the orientation is \<open>(1/2, -1/2, 1/2, -1/2)\<close>.\<close>

theorem identity_frame_pose_witness:
  "converts from_matrix_as_quat (rotation_block (matmul CV_TO_ROS_FRAME identity4))
   \<and> process_frame from_matrix_as_quat ''map'' 30 (identity_frame ''images/frame_0001.png'') =
       Inr \<lparr>stamp_sec = 0, stamp_nanosec = 0, frame_id = ''map'', position = (0, 0, 0),
            orientation = (1 / 2, - 1 / 2, 1 / 2, - 1 / 2)\<rparr>"
proof -
  have h: "converts from_matrix_as_quat (rotation_block (matmul CV_TO_ROS_FRAME identity4))"
    by (simp add: converts_def rotation_block_of_identity)
  show ?thesis
    using h identity_frame_pose [OF h, of "''map''"] by (simp add: run_defs)
qed

text \<open>
  C1, as the claim states it, fails: the pose of that frame is not the one with the
  orientation \<open>(0, 0, 0, 1)\<close>, and the identity quaternion is no quaternion of the rotation
  block at all.
\<close>

theorem identity_frame_orientation_not_identity:
  "process_frame from_matrix_as_quat ''map'' 30 (identity_frame ''images/frame_0001.png'') \<noteq>
       Inr \<lparr>stamp_sec = 0, stamp_nanosec = 0, frame_id = ''map'', position = (0, 0, 0),
            orientation = (0, 0, 0, 1)\<rparr>
   \<and> quat_to_matrix (0, 0, 0, 1) \<noteq> rotation_block (matmul CV_TO_ROS_FRAME identity4)"
  by (simp add: run_defs)

section \<open>The order of the poses\<close>

text \<open>The poses of a list of frames come, in order, from the frames that survive.\<close>

lemma emitted_sources:
  "list_all2 (\<lambda>fr p. process_frame conv fid fps fr = Inr p)
     (filter (survives conv fid fps) fs) (emitted conv fid fps fs)"
proof (induction fs)
  case Nil
  show ?case by (simp add: emitted_def)
next
  case (Cons fr fs)
  then show ?case
    by (cases "process_frame conv fid fps fr") (simp_all add: emitted_def survives_def)
qed

lemma sorted_wrt_path_le:
  assumes "map file_path sfs = map Some paths" and "sorted paths"
  shows "sorted_wrt path_le sfs"
proof -
  have len: "length sfs = length paths"
    using assms(1) by (metis length_map)
  have "path_le (sfs ! i) (sfs ! j)" if "i < j" and "j < length sfs" for i j
  proof -
    from that len have i: "i < length sfs" and j: "j < length paths" by simp_all
    have "file_path (sfs ! i) = Some (paths ! i)"
      using assms(1) i len by (metis nth_map)
    moreover have "file_path (sfs ! j) = Some (paths ! j)"
      using assms(1) that(2) len by (metis nth_map)
    moreover have "paths ! i \<le> paths ! j"
      using assms(2) that(1) j by (simp add: sorted_nth_mono)
    ultimately show ?thesis by (simp add: path_le_def)
  qed
  then show ?thesis by (simp add: sorted_wrt_iff_nth_less)
qed

text \<open>
  C4. The emitted poses are in the order of the raw \<open>file_path\<close> strings of their frames,
  compared lexicographically, not in the order of the frame numbers: the poses are, one by
  one, those of a list of source frames taken from the input, and in that list the path of
  every earlier frame is at most the path of every later one (so in particular for every
  two consecutive poses).
\<close>

theorem poses_ordered_by_path:
  assumes "main conv fid (Some tr) video = (r, st)"
    and "get_video_fps video = (msgs, Inr fps)"
  shows "\<exists>srcs. mset srcs \<subseteq># mset (get_frames tr)
           \<and> list_all2 (\<lambda>fr p. process_frame conv fid fps fr = Inr p) srcs (all_poses st)
           \<and> sorted_wrt path_le srcs"
proof (cases "sorted_by_file_path (get_frames tr)")
  case (Inl e)
  with assms have "all_poses st = []" by (auto simp: main_def)
  then have "mset [] \<subseteq># mset (get_frames tr)
     \<and> list_all2 (\<lambda>fr p. process_frame conv fid fps fr = Inr p) [] (all_poses st)
     \<and> sorted_wrt path_le []" by simp
  then show ?thesis by blast
next
  case (Inr sfs)
  let ?srcs = "filter (survives conv fid fps) sfs"
  from main_run [OF assms(2) Inr, of conv fid] assms(1)
  have poses: "all_poses st = emitted conv fid fps sfs"
    by (auto split: if_splits)
  from sorted_by_file_path_Inr [OF Inr] obtain paths where
    m: "mset sfs = mset (get_frames tr)"
    and p: "map file_path sfs = map Some paths" "sorted paths" by blast
  have "mset ?srcs \<subseteq># mset (get_frames tr)"
    using m by (metis mset_filter multiset_filter_subset)
  moreover have "list_all2 (\<lambda>fr p. process_frame conv fid fps fr = Inr p) ?srcs (all_poses st)"
    unfolding poses by (rule emitted_sources)
  moreover have "sorted_wrt path_le ?srcs"
    using sorted_wrt_path_le [OF p] by (rule sorted_wrt_filter)
  ultimately show ?thesis by blast
qed

text \<open>
  The frames 9 and 10 without padding: \<open>frame_10\<close> is before \<open>frame_9\<close> as a string, so
  the pose of frame 10 (0.3 s) is emitted before the pose of frame 9 (0.2666 s).
\<close>

theorem poses_ordered_by_path_witness:
  "map (\<lambda>p. (stamp_sec p, stamp_nanosec p))
     (all_poses (snd (main from_matrix_as_quat ''map''
        (Some \<lparr>frames = Some [identity_frame ''images/frame_9.png'',
                               identity_frame ''images/oops.png'',
                               identity_frame ''images/frame_10.png'']\<rparr>)
        (Ratio 30 1))))
     = [(0, 300000000), (0, 266666666)]
   \<and> (\<exists>srcs. mset srcs \<subseteq># mset (get_frames
              \<lparr>frames = Some [identity_frame ''images/frame_9.png'',
                               identity_frame ''images/oops.png'',
                               identity_frame ''images/frame_10.png'']\<rparr>)
        \<and> list_all2 (\<lambda>fr p. process_frame from_matrix_as_quat ''map'' 30 fr = Inr p) srcs
             (all_poses (snd (main from_matrix_as_quat ''map''
                (Some \<lparr>frames = Some [identity_frame ''images/frame_9.png'',
                               identity_frame ''images/oops.png'',
                               identity_frame ''images/frame_10.png'']\<rparr>)
                (Ratio 30 1))))
        \<and> sorted_wrt path_le srcs)"
proof -
  let ?tr = "\<lparr>frames = Some [identity_frame ''images/frame_9.png'',
                               identity_frame ''images/oops.png'',
                               identity_frame ''images/frame_10.png'']\<rparr>"
  have a: "main from_matrix_as_quat ''map'' (Some ?tr) (Ratio 30 1)
      = (fst (main from_matrix_as_quat ''map'' (Some ?tr) (Ratio 30 1)),
         snd (main from_matrix_as_quat ''map'' (Some ?tr) (Ratio 30 1)))"
    by simp
  have b: "get_video_fps (Ratio 30 1) = ([], Inr 30)"
    by (simp add: get_video_fps_def truediv_def)
  have c: "map (\<lambda>p. (stamp_sec p, stamp_nanosec p))
     (all_poses (snd (main from_matrix_as_quat ''map'' (Some ?tr) (Ratio 30 1))))
     = [(0, 300000000), (0, 266666666)]"
    by (simp add: main_defs run_defs)
  show ?thesis
    using poses_ordered_by_path [OF a b] c by blast
qed

section \<open>Frames that are skipped\<close>














section \<open>Runs without poses, and runs that abort\<close>





text \<open>
  C10. A descriptor without the key \<open>frames\<close> is treated as an empty frame list: once the
  frame rate is resolved, the run gives the warning, writes no output file and ends with
  status 0, exactly as for the list \<open>[]\<close>.
\<close>

theorem no_frames_key:
  assumes "get_video_fps video = (msgs, Inr fps)"
  shows "main conv fid (Some \<lparr>frames = None\<rparr>) video =
           (Some (SystemExit 0),
            \<lparr>all_poses = [], stderr = [Warning_no_poses], output_file = None\<rparr>)
     \<and> exit_status (fst (main conv fid (Some \<lparr>frames = None\<rparr>) video)) = 0
     \<and> main conv fid (Some \<lparr>frames = None\<rparr>) video =
         main conv fid (Some \<lparr>frames = Some []\<rparr>) video"
  using assms
  by (simp add: main_def get_frames_def sorted_by_file_path_def)

text \<open>The descriptor without frames, with the probe output \<open>30/1\<close>.\<close>

theorem no_frames_key_witness:
  "get_video_fps (Ratio 30 1) = ([], Inr 30)
   \<and> main from_matrix_as_quat ''map'' (Some \<lparr>frames = None\<rparr>) (Ratio 30 1) =
           (Some (SystemExit 0),
            \<lparr>all_poses = [], stderr = [Warning_no_poses], output_file = None\<rparr>)
   \<and> exit_status (fst (main from_matrix_as_quat ''map'' (Some \<lparr>frames = None\<rparr>) (Ratio 30 1))) = 0"
proof -
  have a: "get_video_fps (Ratio 30 1) = ([], Inr 30)"
    by (simp add: get_video_fps_def truediv_def)
  show ?thesis
    using no_frames_key [OF a, of from_matrix_as_quat "''map''"] a by simp
qed

end
